theory Spec2Isabelle
  imports Complex_Main
begin

section \<open>The retrieval-augmented chat of chatUIStreamlit.py\<close>

text \<open>
  A shallow embedding of \<^verbatim>\<open>code/Streamlit/chatUIStreamlit.py\<close>. The module is an
  orchestration of libraries it does not contain (ollama, the OpenAI client, torch,
  LangChain, Streamlit), so every call that leaves the module is a parameter of the model:
  a field of a record of services. A call with an effect takes the state \<open>'w\<close> of
  everything outside the module and returns the new one together with its result, so that
  the calls a function makes, and their order, are visible in what it returns. An exception
  is a value \<open>Inl e\<close> of a sum type; a function that mutates a list it was given returns
  the list as it is left, also when it raises.

  Strings are \<open>string\<close>, read as sequences of code points below 256. Embedding
  components (\<open>'e\<close>) and similarity scores (\<open>'s\<close>) are 32-bit floats in torch; the model
  leaves them abstract and asks of the scores only that they are linearly ordered, which is
  what ranking needs (a NaN score is outside the model). The \<^verbatim>\<open>print\<close> calls and the
  Streamlit widgets that only draw are left out.
\<close>

subsection \<open>Exceptions\<close>

datatype error =
    NameError string     \<comment> \<open>a read of a name bound neither locally nor at module scope\<close>
  | IndexError           \<comment> \<open>a list index out of range\<close>
  | RuntimeError         \<comment> \<open>torch: \<^verbatim>\<open>selected index k out of range\<close>\<close>
  | FileNotFoundError    \<comment> \<open>\<^verbatim>\<open>os.unlink\<close> of a path that does not exist\<close>
  | LibraryError string  \<comment> \<open>any exception raised inside a library or a service, by name\<close>

subsection \<open>Strings\<close>

definition newline :: string where
  "newline = [CHR 0x0A]"

text \<open>\<^verbatim>\<open>str.isspace\<close> on the code points below 256, and \<^verbatim>\<open>str.strip()\<close>.\<close>

definition isspace :: "char \<Rightarrow> bool" where
  "isspace c = (of_char c \<in> {9, 10, 11, 12, 13, 28, 29, 30, 31, 32, 133, 160 :: nat})"

definition strip :: "string \<Rightarrow> string" where
  "strip s = rev (dropWhile isspace (rev (dropWhile isspace s)))"

text \<open>\<^verbatim>\<open>sep.join(xs)\<close>.\<close>

fun join :: "string \<Rightarrow> string list \<Rightarrow> string" where
  "join sep [] = []"
| "join sep [x] = x"
| "join sep (x # y # ys) = x @ sep @ join sep (y # ys)"

subsection \<open>Messages and the services outside the module\<close>

text \<open>A message is the dict \<^verbatim>\<open>{"role": ..., "content": ...}\<close>.\<close>

record message =
  role :: string
  content :: string

text \<open>
  The keyword arguments of \<^verbatim>\<open>client.chat.completions.create\<close>; \<^verbatim>\<open>n\<close> and
  \<^verbatim>\<open>temperature\<close> are given by one of the two callers only.
\<close>

record request =
  req_model :: string
  req_messages :: "message list"
  req_max_tokens :: nat
  req_n :: "nat option"
  req_temperature :: "rat option"

text \<open>
  \<^item> \<open>ollama_embeddings model prompt\<close> is \<^verbatim>\<open>ollama.embeddings(model=..., prompt=...)["embedding"]\<close>;
  \<^item> \<open>torch_cosine_similarity x rows\<close> is
    \<^verbatim>\<open>torch.cosine_similarity(torch.tensor(x).unsqueeze(0), rows)\<close>, a pure computation that
    raises when the shapes do not broadcast;
  \<^item> \<open>torch_topk_ties scores k\<close> is the order in which \<^verbatim>\<open>torch.topk(scores, k)\<close> returns
    positions of equal score, as a priority for each position (see below);
  \<^item> \<open>chat_completions_create req\<close> is \<^verbatim>\<open>client.chat.completions.create(...)\<close> followed
    by \<^verbatim>\<open>.choices[0].message.content\<close>.
\<close>

record ('e, 's, 'w) services =
  ollama_embeddings :: "string \<Rightarrow> string \<Rightarrow> 'w \<Rightarrow> (error + 'e list) \<times> 'w"
  torch_cosine_similarity :: "'e list \<Rightarrow> 'e list list \<Rightarrow> error + 's list"
  torch_topk_ties :: "'s list \<Rightarrow> int \<Rightarrow> nat \<Rightarrow> nat"
  chat_completions_create :: "request \<Rightarrow> 'w \<Rightarrow> (error + string) \<times> 'w"

subsection \<open>Tensors\<close>

text \<open>
  The vault's embeddings are a tensor with one row for each stored chunk, here the list of
  its rows; \<^verbatim>\<open>torch.tensor([])\<close> is the list with no row. \<^verbatim>\<open>nelement()\<close> counts the
  components of all rows.
\<close>

definition nelement :: "'e list list \<Rightarrow> nat" where
  "nelement t = sum_list (map length t)"

text \<open>
  \<^verbatim>\<open>torch.topk(scores, k)[1].tolist()\<close>: the positions of the \<open>k\<close> largest scores, the
  largest first. torch raises when \<open>k\<close> is negative or exceeds the number of scores. The
  order in which it returns positions of equal score is the library's own and may depend
  on the scores and on \<open>k\<close>; the model takes it as a parameter: a priority for each
  position, the lower first among equal scores (positions that also have equal priority
  come in index order). Every order torch can return, descending in the scores, is the
  ranking for some priority.
\<close>

definition ranked :: "(nat \<Rightarrow> nat) \<Rightarrow> ('s::linorder) list \<Rightarrow> nat list" where
  "ranked priority scores =
     rev (sort_key (\<lambda>i. scores ! i) (rev (sort_key priority [0..<length scores])))"

definition torch_topk ::
  "(('s::linorder) list \<Rightarrow> int \<Rightarrow> nat \<Rightarrow> nat) \<Rightarrow> 's list \<Rightarrow> int \<Rightarrow> error + nat list" where
  "torch_topk ties scores k =
     (if k < 0 \<or> int (length scores) < k then Inl RuntimeError
      else Inr (take (nat k) (ranked (ties scores k) scores)))"

subsection \<open>Query processing: \<^verbatim>\<open>get_context\<close>\<close>

text \<open>
  The comprehension \<^verbatim>\<open>[vault_content[idx].strip() for idx in top_indices]\<close>; an index
  beyond the list raises.
\<close>

fun relevant_context_of :: "string list \<Rightarrow> nat list \<Rightarrow> error + string list" where
  "relevant_context_of v_content [] = Inr []"
| "relevant_context_of v_content (idx # idxs) =
     (if idx < length v_content then
        (case relevant_context_of v_content idxs of
           Inl e \<Rightarrow> Inl e
         | Inr rest \<Rightarrow> Inr (strip (v_content ! idx) # rest))
      else Inl IndexError)"

definition get_context ::
  "('e, 's::linorder, 'w) services \<Rightarrow> string \<Rightarrow> 'e list list \<Rightarrow> string list \<Rightarrow> int \<Rightarrow> 'w
     \<Rightarrow> (error + string list) \<times> 'w" where
  "get_context sv rewritten_input v_embeddings v_content top_k w =
     (if nelement v_embeddings = 0 then (Inr [], w)
      else
        (case ollama_embeddings sv ''nomic-embed-text'' rewritten_input w of
           (Inl e, w') \<Rightarrow> (Inl e, w')
         | (Inr input_embedding, w') \<Rightarrow>
             (case torch_cosine_similarity sv input_embedding v_embeddings of
                Inl e \<Rightarrow> (Inl e, w')
              | Inr cos_scores \<Rightarrow>
                  (case torch_topk (torch_topk_ties sv) cos_scores
                          (min top_k (int (length cos_scores))) of
                     Inl e \<Rightarrow> (Inl e, w')
                   | Inr top_indices \<Rightarrow> (relevant_context_of v_content top_indices, w')))))"

subsection \<open>Query processing: \<^verbatim>\<open>rewrite_query\<close>\<close>

text \<open>The f-string of \<^verbatim>\<open>rewrite_query\<close>, line by line as the source indents it.\<close>

definition rewrite_prompt :: "string \<Rightarrow> string \<Rightarrow> string" where
  "rewrite_prompt context user_input =
     ''Rewrite the following query by incorporating relevant context from the conversation history.'' @ newline @
     ''    The rewritten query should:'' @ newline @
     ''    '' @ newline @
     ''    - Preserve the core intent and meaning of the original query'' @ newline @
     ''    - Expand and clarify the query to make it more specific and informative for retrieving relevant context'' @ newline @
     ''    - Avoid introducing new topics or queries that deviate from the original query'' @ newline @
     ''    - DONT EVER ANSWER the Original query, but instead focus on rephrasing and expanding it into a new query'' @ newline @
     ''    - Return the output as plain text, without any additional formatting'' @ newline @
     ''    '' @ newline @
     ''    Return ONLY the rewritten query text, without any additional formatting or explanations.'' @ newline @
     ''    '' @ newline @
     ''    Conversation History:'' @ newline @
     ''    '' @ context @ newline @
     ''    '' @ newline @
     ''    Original query: ['' @ user_input @ '']'' @ newline @
     ''    '' @ newline @
     ''    Rewritten query: '' @ newline @
     ''    ''"

text \<open>
  The caller wraps the query in a JSON object and unwraps the answer from one;
  \<^verbatim>\<open>json.loads(json.dumps(d))[k]\<close> is \<^verbatim>\<open>d[k]\<close> for a dict of strings, so the model
  passes the strings themselves. \<^verbatim>\<open>conversation_history[-2:]\<close> is the last two messages,
  or all of them when there are fewer.
\<close>

definition rewrite_query ::
  "('e, 's, 'w) services \<Rightarrow> string \<Rightarrow> message list \<Rightarrow> string \<Rightarrow> 'w \<Rightarrow> (error + string) \<times> 'w" where
  "rewrite_query sv user_input conversation_history model_name w =
     (let context = join newline
            (map (\<lambda>msg. role msg @ '': '' @ content msg)
               (drop (length conversation_history - 2) conversation_history));
          prompt = rewrite_prompt context user_input
      in case chat_completions_create sv
                \<lparr>req_model = model_name,
                 req_messages = [\<lparr>role = ''system'', content = prompt\<rparr>],
                 req_max_tokens = 200, req_n = Some 1, req_temperature = Some (1 / 10)\<rparr> w of
           (Inl e, w') \<Rightarrow> (Inl e, w')
         | (Inr reply, w') \<Rightarrow> (Inr (strip reply), w'))"

subsection \<open>The names \<^verbatim>\<open>chat\<close> reads from module scope\<close>

text \<open>
  \<^verbatim>\<open>chat\<close> reads three names that are neither its parameters nor its locals:
  \<^verbatim>\<open>ollama_model\<close>, \<^verbatim>\<open>vault_embeddings\<close> and \<^verbatim>\<open>vault_content\<close>. Python looks them up in
  the module's globals when the read is evaluated and raises \<^verbatim>\<open>NameError\<close> when the name
  is not there. The model takes the three as parameters, \<open>None\<close> for a name that is not
  bound.
\<close>

record 'e globals =
  ollama_model :: "string option"
  vault_embeddings :: "'e list list option"
  vault_content :: "string list option"

text \<open>
  Every name the module binds at its top level: its imports, its four functions, and the
  targets of its top-level assignments and loops.
\<close>

definition module_scope_names :: "string list" where
  "module_scope_names =
     [''torch'', ''ollama'', ''OpenAI'', ''json'', ''st'', ''os'', ''tempfile'', ''uuid4'',
      ''PyPDFLoader'', ''UnstructuredMarkdownLoader'', ''JSONLoader'', ''TextLoader'',
      ''RecursiveCharacterTextSplitter'', ''Chroma'', ''OllamaEmbeddings'',
      ''add_to_vector_store'', ''get_context'', ''rewrite_query'', ''chat'',
      ''client'', ''embeddings'', ''vector_store'', ''retriever'',
      ''uploaded_files'', ''new_files'', ''new_file'', ''message'', ''user_input'',
      ''response'']"

text \<open>The globals of the module as it is: none of the three names is bound.\<close>

definition module_globals :: "'e globals" where
  "module_globals = \<lparr>ollama_model = None, vault_embeddings = None, vault_content = None\<rparr>"

subsection \<open>The conversation: \<^verbatim>\<open>chat\<close>\<close>

definition system_message :: string where
  "system_message = ''You are a helpful assistant that is an expert at extracting the most useful information from a given text. Also bring in extra relevant information to the user query from outside the given context.''"

text \<open>\<^verbatim>\<open>conversation_history[-1]["content"] = c\<close>; on an empty list the index raises.\<close>

definition set_last_content :: "string \<Rightarrow> message list \<Rightarrow> error + message list" where
  "set_last_content c h =
     (if h = [] then Inl IndexError else Inr (butlast h @ [(last h)\<lparr>content := c\<rparr>]))"

text \<open>
  \<^verbatim>\<open>chat\<close> mutates the list it is given; the model returns the list as the call leaves it,
  on every path. The arguments of a call are evaluated left to right before the call is
  made, so an unbound name among them raises before the callee runs. The parameters
  \<open>model\<close> and \<open>top_k\<close> are those of the source; \<^verbatim>\<open>get_context\<close> is called without a
  fourth argument and so with its default, 3.

  Two parts of the body are definitions of their own: the choice of the query to retrieve
  with (the \<^verbatim>\<open>if len(conversation_history) > 1\<close> block, run after the user's message is
  appended), and the text that replaces the content of the user's message.
\<close>

definition chat_rewritten_query ::
  "'e globals \<Rightarrow> ('e, 's, 'w) services \<Rightarrow> string \<Rightarrow> message list \<Rightarrow> 'w \<Rightarrow> (error + string) \<times> 'w" where
  "chat_rewritten_query g sv user_input conversation_history w =
     (if length conversation_history > 1 then
        (case ollama_model g of
           None \<Rightarrow> (Inl (NameError ''ollama_model''), w)
         | Some m \<Rightarrow> rewrite_query sv user_input conversation_history m w)
      else (Inr user_input, w))"

definition user_input_with_context :: "string \<Rightarrow> string list \<Rightarrow> string" where
  "user_input_with_context user_input relevant_context =
     (if relevant_context \<noteq> [] then
        user_input @ newline @ newline @ ''Relevant Context:'' @ newline
          @ join newline relevant_context
      else user_input)"

definition chat ::
  "'e globals \<Rightarrow> ('e, 's::linorder, 'w) services \<Rightarrow> string \<Rightarrow> string \<Rightarrow> int \<Rightarrow> message list \<Rightarrow> 'w
     \<Rightarrow> (error + string) \<times> message list \<times> 'w" where
  "chat g sv user_input model top_k conversation_history w =
     (let h1 = conversation_history @ [\<lparr>role = ''user'', content = user_input\<rparr>] in
      case chat_rewritten_query g sv user_input h1 w of
        (Inl e, w1) \<Rightarrow> (Inl e, h1, w1)
      | (Inr rewritten_query, w1) \<Rightarrow>
          (case vault_embeddings g of
             None \<Rightarrow> (Inl (NameError ''vault_embeddings''), h1, w1)
           | Some v_embeddings \<Rightarrow>
          (case vault_content g of
             None \<Rightarrow> (Inl (NameError ''vault_content''), h1, w1)
           | Some v_content \<Rightarrow>
          (case get_context sv rewritten_query v_embeddings v_content 3 w1 of
             (Inl e, w2) \<Rightarrow> (Inl e, h1, w2)
           | (Inr relevant_context, w2) \<Rightarrow>
               (case set_last_content (user_input_with_context user_input relevant_context) h1 of
                  Inl e \<Rightarrow> (Inl e, h1, w2)
                | Inr h2 \<Rightarrow>
                    (let messages = \<lparr>role = ''system'', content = system_message\<rparr> # h2 in
                     case ollama_model g of
                       None \<Rightarrow> (Inl (NameError ''ollama_model''), h2, w2)
                     | Some m \<Rightarrow>
                         (case chat_completions_create sv
                                 \<lparr>req_model = m, req_messages = messages,
                                  req_max_tokens = 2000, req_n = None,
                                  req_temperature = None\<rparr> w2 of
                            (Inl e, w3) \<Rightarrow> (Inl e, h2, w3)
                          | (Inr reply, w3) \<Rightarrow>
                              (Inr reply,
                               h2 @ [\<lparr>role = ''assistant'', content = reply\<rparr>], w3))))))))"

subsection \<open>The script's handling of a query\<close>

text \<open>
  The last block of the script: when the text input is not empty it calls \<^verbatim>\<open>chat\<close> with
  \<^verbatim>\<open>st.session_state['messages']\<close>, the very list that \<^verbatim>\<open>chat\<close> appends to, and then
  appends the user's text and the response to that list itself. An exception in
  \<^verbatim>\<open>chat\<close> ends the script run; the list keeps what \<^verbatim>\<open>chat\<close> had done to it.
  The result is the response shown, if any.
\<close>

definition on_user_input ::
  "'e globals \<Rightarrow> ('e, 's::linorder, 'w) services \<Rightarrow> string \<Rightarrow> string \<Rightarrow> int \<Rightarrow> message list \<Rightarrow> 'w
     \<Rightarrow> (error + string option) \<times> message list \<times> 'w" where
  "on_user_input g sv user_input model top_k messages w =
     (if user_input = [] then (Inr None, messages, w)
      else
        (case chat g sv user_input model top_k messages w of
           (Inl e, messages1, w1) \<Rightarrow> (Inl e, messages1, w1)
         | (Inr response, messages1, w1) \<Rightarrow>
             (Inr (Some response),
              messages1 @ [\<lparr>role = ''user'', content = user_input\<rparr>,
                           \<lparr>role = ''assistant'', content = response\<rparr>],
              w1)))"

subsection \<open>Data ingestion: \<^verbatim>\<open>add_to_vector_store\<close>\<close>

text \<open>
  The uploaded file (\<^verbatim>\<open>None\<close> when there is none), a loaded document with the one
  metadata entry the function writes, and the four loaders, each built on a file path.
\<close>

record uploaded_file =
  file_name :: string
  file_type :: string
  file_value :: string

record document =
  page_content :: string
  metadata_source :: string

datatype loader =
    PyPDFLoader string
  | JSONLoader string
  | UnstructuredMarkdownLoader string
  | TextLoader string

text \<open>The files on disk, by path.\<close>

type_synonym fs = "string \<rightharpoonup> string"

text \<open>
  \<^item> \<open>named_temporary_file\<close> is the name \<^verbatim>\<open>tempfile.NamedTemporaryFile(delete=False)\<close>
    creates its file under;
  \<^item> \<open>loader_load\<close> builds the loader and calls \<^verbatim>\<open>load()\<close>, which reads the disk and
    raises on content it cannot parse;
  \<^item> \<open>split_documents size overlap\<close> is the \<^verbatim>\<open>RecursiveCharacterTextSplitter\<close>;
  \<^item> \<open>uuid4\<close> is \<^verbatim>\<open>str(uuid4())\<close>;
  \<^item> \<open>add_documents\<close> is \<^verbatim>\<open>vector_store.add_documents(documents=..., ids=...)\<close>; the
    vector store is part of \<open>'w\<close>.
\<close>

record 'w ingestion =
  named_temporary_file :: "fs \<Rightarrow> 'w \<Rightarrow> (error + string) \<times> 'w"
  loader_load :: "loader \<Rightarrow> fs \<Rightarrow> 'w \<Rightarrow> (error + document list) \<times> 'w"
  split_documents :: "int \<Rightarrow> int \<Rightarrow> document list \<Rightarrow> error + document list"
  uuid4 :: "'w \<Rightarrow> string \<times> 'w"
  add_documents :: "document list \<Rightarrow> string list \<Rightarrow> 'w \<Rightarrow> (error + unit) \<times> 'w"

text \<open>\<^verbatim>\<open>[file.name + str(uuid4()) for _ in range(n)]\<close>.\<close>

fun make_uuids :: "'w ingestion \<Rightarrow> string \<Rightarrow> nat \<Rightarrow> 'w \<Rightarrow> string list \<times> 'w" where
  "make_uuids lib name 0 w = ([], w)"
| "make_uuids lib name (Suc n) w =
     (case uuid4 lib w of
        (u, w1) \<Rightarrow> (case make_uuids lib name n w1 of (us, w2) \<Rightarrow> ((name @ u) # us, w2)))"

definition os_unlink :: "string \<Rightarrow> fs \<Rightarrow> error + fs" where
  "os_unlink path disk =
     (if disk path = None then Inl FileNotFoundError else Inr (disk(path := None)))"

text \<open>The \<^verbatim>\<open>if file.type == ...\<close> chain that picks the loader.\<close>

definition loader_for :: "string \<Rightarrow> string \<Rightarrow> loader" where
  "loader_for mime tmp_file_path =
     (if mime = ''application/pdf'' then PyPDFLoader tmp_file_path
      else if mime = ''application/json'' then JSONLoader tmp_file_path
      else if mime = ''text/markdown'' then UnstructuredMarkdownLoader tmp_file_path
      else TextLoader tmp_file_path)"

text \<open>
  The function returns nothing; the model returns the disk and the outside as the call
  leaves them. The \<^verbatim>\<open>with\<close> block writes the bytes and closes the file, which stays on
  disk (\<^verbatim>\<open>delete=False\<close>); \<^verbatim>\<open>tmp.close()\<close> after it does nothing more. There is no
  \<^verbatim>\<open>try\<close> in the function: an exception leaves it at once.
\<close>

definition add_to_vector_store ::
  "'w ingestion \<Rightarrow> uploaded_file option \<Rightarrow> int \<Rightarrow> int \<Rightarrow> fs \<Rightarrow> 'w \<Rightarrow> (error + unit) \<times> fs \<times> 'w" where
  "add_to_vector_store lib file chunk_size chunk_overlap disk w =
     (case file of
        None \<Rightarrow> (Inr (), disk, w)
      | Some f \<Rightarrow>
          (case named_temporary_file lib disk w of
             (Inl e, w1) \<Rightarrow> (Inl e, disk, w1)
           | (Inr tmp_file_path, w1) \<Rightarrow>
               (let disk1 = disk(tmp_file_path \<mapsto> file_value f);
                    loader = loader_for (file_type f) tmp_file_path
                in case loader_load lib loader disk1 w1 of
                     (Inl e, w2) \<Rightarrow> (Inl e, disk1, w2)
                   | (Inr loaded, w2) \<Rightarrow>
                       (let data = map (\<lambda>d. d\<lparr>metadata_source := file_name f\<rparr>) loaded in
                        case split_documents lib chunk_size chunk_overlap data of
                          Inl e \<Rightarrow> (Inl e, disk1, w2)
                        | Inr chunked_data \<Rightarrow>
                            (case make_uuids lib (file_name f) (length chunked_data) w2 of
                               (uuids, w3) \<Rightarrow>
                                 (case add_documents lib chunked_data uuids w3 of
                                    (Inl e, w4) \<Rightarrow> (Inl e, disk1, w4)
                                  | (Inr u, w4) \<Rightarrow>
                                      (case os_unlink tmp_file_path disk1 of
                                         Inl e \<Rightarrow> (Inl e, disk1, w4)
                                       | Inr disk2 \<Rightarrow> (Inr (), disk2, w4))))))))"

subsection \<open>Stub services and a small vault\<close>

text \<open>
  Fixed stand-ins for the services, to run the functions on: the outside is a counter of
  the service calls made; the embedding of a text is its length and a one; the similarity
  is the dot product with each row; equal scores come in index order; the completion
  service answers \<^verbatim>\<open>ok\<close>.
\<close>

definition stub_services :: "(int, int, nat) services" where
  "stub_services =
     \<lparr>ollama_embeddings = (\<lambda>model_name prompt n. (Inr [int (length prompt), 1], Suc n)),
      torch_cosine_similarity =
        (\<lambda>x rows. Inr (map (\<lambda>row. sum_list (map2 (*) x row)) rows)),
      torch_topk_ties = (\<lambda>scores k i. 0),
      chat_completions_create = (\<lambda>req n. (Inr ''ok'', Suc n))\<rparr>"

definition embeddings_down :: "(int, int, nat) services" where
  "embeddings_down =
     stub_services\<lparr>ollama_embeddings :=
       (\<lambda>model_name prompt n. (Inl (LibraryError ''ResponseError''), Suc n))\<rparr>"


text \<open>Globals with all three names bound: a vault of two chunks, and an empty one.\<close>

definition vault_globals :: "int globals" where
  "vault_globals =
     \<lparr>ollama_model = Some ''gemma2:2b'',
      vault_embeddings = Some [[1, 0], [0, 1]],
      vault_content = Some [''The sky is blue'', '' Grass is green '']\<rparr>"

definition empty_vault_globals :: "int globals" where
  "empty_vault_globals =
     \<lparr>ollama_model = Some ''gemma2:2b'', vault_embeddings = Some [], vault_content = Some []\<rparr>"

text \<open>
  Stand-ins for the ingestion libraries: the temporary file is always created under the
  same name, the loader gives one document, the splitter leaves the documents as they are.
  A second set has a loader that cannot parse the file.
\<close>

definition stub_ingestion :: "nat ingestion" where
  "stub_ingestion =
     \<lparr>named_temporary_file = (\<lambda>disk n. (Inr ''/tmp/tmpk3v9'', Suc n)),
      loader_load =
        (\<lambda>l disk n. (Inr [\<lparr>page_content = ''text'', metadata_source = ''/tmp/tmpk3v9''\<rparr>], Suc n)),
      split_documents = (\<lambda>chunk_size chunk_overlap docs. Inr docs),
      uuid4 = (\<lambda>n. (''-0000'', Suc n)),
      add_documents = (\<lambda>docs ids n. (Inr (), Suc n))\<rparr>"

definition loader_down :: "nat ingestion" where
  "loader_down =
     stub_ingestion\<lparr>loader_load := (\<lambda>l disk n. (Inl (LibraryError ''PdfReadError''), Suc n))\<rparr>"

definition broken_pdf :: uploaded_file where
  "broken_pdf =
     \<lparr>file_name = ''report.pdf'', file_type = ''application/pdf'', file_value = ''not a pdf''\<rparr>"

section \<open>Properties\<close>

subsection \<open>Querying an empty vault\<close>

text \<open>
  Claim C7. Whatever the query text and whatever \<open>top_k\<close>, a vault whose embeddings
  have no element gives the empty list and no error, and the outside is left as it was:
  no service, the embedding service among them, has been called.
\<close>

theorem get_context_empty_store:
  "nelement v_embeddings = 0 \<Longrightarrow>
     get_context sv rewritten_input v_embeddings v_content top_k w = (Inr [], w)"
  by (simp add: get_context_def)

theorem get_context_empty_store_witness:
  "nelement ([] :: int list list) = 0 \<and>
   get_context embeddings_down ''What is X?'' [] [] 3 0 = (Inr [], 0)"
  using get_context_empty_store [of "[] :: int list list" embeddings_down "''What is X?''" "[]" 3 0]
  by (simp add: nelement_def)

subsection \<open>The module as it is: every call of \<^verbatim>\<open>chat\<close> raises\<close>

text \<open>
  Claim C1, as stated, says that every call of \<^verbatim>\<open>chat\<close> reaches a read of
  \<^verbatim>\<open>ollama_model\<close>. On an empty history the \<^verbatim>\<open>else\<close> branch is taken, and the first
  unbound name read is \<^verbatim>\<open>vault_embeddings\<close>, among the arguments of \<^verbatim>\<open>get_context\<close>:
  the call raises there and never comes to \<^verbatim>\<open>ollama_model\<close>.
\<close>

theorem chat_first_turn_unbound_name:
  "fst (chat module_globals stub_services ''hi'' ''gemma2:2b'' 3 [] 0)
     = Inl (NameError ''vault_embeddings'') \<and>
   fst (chat module_globals stub_services ''hi'' ''gemma2:2b'' 3 [] 0)
     \<noteq> Inl (NameError ''ollama_model'')"
  by (simp add: chat_def chat_rewritten_query_def module_globals_def)

text \<open>
  Claim C1, amended. None of the three names is bound at module scope. With the module's
  globals every call of \<^verbatim>\<open>chat\<close> raises \<^verbatim>\<open>NameError\<close>: on \<^verbatim>\<open>vault_embeddings\<close>
  when the history it is given is empty, on \<^verbatim>\<open>ollama_model\<close> otherwise. It does so
  before any service is called (the outside is unchanged) and before any reply exists; the
  history is left with the user's message appended, its content the raw input. The
  right-hand side mentions neither \<open>model\<close> nor \<open>top_k\<close>: neither is read.
\<close>

theorem chat_module_globals_unbound_name:
  "''ollama_model'' \<notin> set module_scope_names \<and>
   ''vault_embeddings'' \<notin> set module_scope_names \<and>
   ''vault_content'' \<notin> set module_scope_names \<and>
   chat module_globals sv user_input model top_k conversation_history w =
     (Inl (NameError (if conversation_history = [] then ''vault_embeddings''
                      else ''ollama_model'')),
      conversation_history @ [\<lparr>role = ''user'', content = user_input\<rparr>], w)"
  by (simp add: chat_def chat_rewritten_query_def module_globals_def module_scope_names_def)

theorem chat_module_globals_unbound_name_witness:
  "chat module_globals stub_services ''and then?'' ''gemma2:2b'' 5
     [\<lparr>role = ''user'', content = ''hi''\<rparr>] 0 =
     (Inl (NameError ''ollama_model''),
      [\<lparr>role = ''user'', content = ''hi''\<rparr>, \<lparr>role = ''user'', content = ''and then?''\<rparr>], 0)"
  using chat_module_globals_unbound_name
    [of stub_services "''and then?''" "''gemma2:2b''" 5 "[\<lparr>role = ''user'', content = ''hi''\<rparr>]" 0]
  by simp

subsection \<open>Ranking and clamping\<close>

text \<open>The ranking is a permutation of the positions, the highest score first.\<close>

lemma length_ranked: "length (ranked priority scores) = length scores"
  by (simp add: ranked_def)

lemma set_ranked: "set (ranked priority scores) = {0..<length scores}"
  by (simp add: ranked_def)

lemma distinct_ranked: "distinct (ranked priority scores)"
  by (simp add: ranked_def)

lemma sorted_ranked:
  "sorted_wrt (\<lambda>i j. scores ! j \<le> scores ! i) (ranked priority scores)"
proof -
  let ?xs = "sort_key (\<lambda>i. scores ! i) (rev (sort_key priority [0..<length scores]))"
  have "sorted (map (\<lambda>i. scores ! i) ?xs)"
    by (rule sorted_sort_key)
  then have "sorted_wrt (\<lambda>i j. scores ! i \<le> scores ! j) ?xs"
    by (simp add: sorted_map)
  then show ?thesis
    by (simp add: ranked_def sorted_wrt_rev)
qed

text \<open>What a prefix of the ranking leaves out scores no higher than what it holds.\<close>

lemma take_ranked_top:
  assumes "j < length scores"
    and "j \<notin> set (take k (ranked priority scores))"
    and "i \<in> set (take k (ranked priority scores))"
  shows "scores ! j \<le> scores ! i"
proof -
  have "j \<in> set (ranked priority scores)"
    using assms(1) by (simp add: set_ranked)
  then have "j \<in> set (take k (ranked priority scores)) \<union> set (drop k (ranked priority scores))"
    by (metis append_take_drop_id set_append)
  with assms(2) have later: "j \<in> set (drop k (ranked priority scores))"
    by simp
  have "sorted_wrt (\<lambda>i j. scores ! j \<le> scores ! i)
          (take k (ranked priority scores) @ drop k (ranked priority scores))"
    using sorted_ranked [of scores priority] by simp
  then show ?thesis
    using later assms(3) unfolding sorted_wrt_append by blast
qed

lemma relevant_context_of_in_range:
  "\<forall>i \<in> set idxs. i < length v_content \<Longrightarrow>
     relevant_context_of v_content idxs = Inr (map (\<lambda>i. strip (v_content ! i)) idxs)"
  by (induction idxs) simp_all

text \<open>
  Claim C8. Take a vault that is not empty, with \<open>n\<close> embeddings and their \<open>n\<close> chunks,
  a query whose embedding the service returns, scores of which the library gives one for
  each embedding, and a requested \<open>top_k\<close> that is not negative. Then \<^verbatim>\<open>get_context\<close>
  returns the chunks at positions \<open>idxs\<close>, each stripped of surrounding white space as
  the code does, where \<open>idxs\<close> has exactly \<open>min top_k n\<close> positions, all different and
  all of the vault, in descending order of score; no position left out scores higher than
  one that is in; and when \<open>top_k \<ge> n\<close> they are all the positions of the vault.
\<close>

theorem get_context_top_k:
  assumes ne: "nelement v_embeddings \<noteq> 0"
    and emb: "ollama_embeddings sv ''nomic-embed-text'' rewritten_input w = (Inr x, w')"
    and cos: "torch_cosine_similarity sv x v_embeddings = Inr scores"
    and n: "length scores = length v_embeddings" "length v_content = length v_embeddings"
    and k: "0 \<le> top_k"
  shows "\<exists>idxs.
     get_context sv rewritten_input v_embeddings v_content top_k w
       = (Inr (map (\<lambda>i. strip (v_content ! i)) idxs), w') \<and>
     length idxs = min (nat top_k) (length v_embeddings) \<and>
     distinct idxs \<and> set idxs \<subseteq> {0..<length v_embeddings} \<and>
     sorted_wrt (\<lambda>i j. scores ! j \<le> scores ! i) idxs \<and>
     (\<forall>j<length v_embeddings. j \<notin> set idxs \<longrightarrow> (\<forall>i\<in>set idxs. scores ! j \<le> scores ! i)) \<and>
     (int (length v_embeddings) \<le> top_k \<longrightarrow> set idxs = {0..<length v_embeddings})"
proof -
  define k' where "k' = nat (min top_k (int (length scores)))"
  define priority where
    "priority = torch_topk_ties sv scores (min top_k (int (length scores)))"
  define idxs where "idxs = take k' (ranked priority scores)"
  have topk: "torch_topk (torch_topk_ties sv) scores (min top_k (int (length scores))) = Inr idxs"
    using k by (simp add: torch_topk_def idxs_def k'_def priority_def)
  have sub: "set idxs \<subseteq> {0..<length v_embeddings}"
    using set_take_subset [of k' "ranked priority scores"] n(1)
    by (simp add: idxs_def set_ranked)
  then have "\<forall>i \<in> set idxs. i < length v_content"
    using n(2) by auto
  then have rc: "relevant_context_of v_content idxs = Inr (map (\<lambda>i. strip (v_content ! i)) idxs)"
    by (rule relevant_context_of_in_range)
  have run: "get_context sv rewritten_input v_embeddings v_content top_k w
       = (Inr (map (\<lambda>i. strip (v_content ! i)) idxs), w')"
    using ne emb cos topk rc by (simp add: get_context_def)
  have len: "length idxs = min (nat top_k) (length v_embeddings)"
    using k n(1) by (auto simp: idxs_def k'_def length_ranked min_def)
  have dist: "distinct idxs"
    by (simp add: idxs_def distinct_ranked)
  have srt: "sorted_wrt (\<lambda>i j. scores ! j \<le> scores ! i) idxs"
    unfolding idxs_def by (rule sorted_wrt_take) (rule sorted_ranked)
  have top: "\<forall>j<length v_embeddings. j \<notin> set idxs \<longrightarrow> (\<forall>i\<in>set idxs. scores ! j \<le> scores ! i)"
    using take_ranked_top [of _ scores k' priority] n(1) by (auto simp: idxs_def)
  have all: "int (length v_embeddings) \<le> top_k \<longrightarrow> set idxs = {0..<length v_embeddings}"
  proof
    assume "int (length v_embeddings) \<le> top_k"
    then have "k' = length scores"
      using n(1) by (simp add: k'_def min_def)
    then show "set idxs = {0..<length v_embeddings}"
      using n(1) by (simp add: idxs_def length_ranked set_ranked)
  qed
  from run len dist sub srt top all show ?thesis by blast
qed

theorem get_context_top_k_witness:
  "nelement [[1, 0], [0, 1 :: int]] \<noteq> 0 \<and>
   ollama_embeddings stub_services ''nomic-embed-text'' ''hi'' 0 = (Inr [2, 1], 1) \<and>
   torch_cosine_similarity stub_services [2, 1] [[1, 0], [0, 1]] = Inr [2, 1] \<and>
   (\<exists>idxs.
     get_context stub_services ''hi'' [[1, 0], [0, 1]] [''The sky is blue'', '' Grass is green ''] 5 0
       = (Inr (map (\<lambda>i. strip ([''The sky is blue'', '' Grass is green ''] ! i)) idxs), 1) \<and>
     length idxs = 2 \<and> set idxs = {0..<2})"
proof -
  have h1: "nelement [[1, 0], [0, 1 :: int]] \<noteq> 0"
    by (simp add: nelement_def)
  have h2: "ollama_embeddings stub_services ''nomic-embed-text'' ''hi'' 0 = (Inr [2, 1], 1)"
    by (simp add: stub_services_def)
  have h3: "torch_cosine_similarity stub_services [2, 1] [[1, 0], [0, 1]] = Inr [2, 1]"
    by (simp add: stub_services_def)
  have "\<exists>idxs.
     get_context stub_services ''hi'' [[1, 0], [0, 1]] [''The sky is blue'', '' Grass is green ''] 5 0
       = (Inr (map (\<lambda>i. strip ([''The sky is blue'', '' Grass is green ''] ! i)) idxs), 1) \<and>
     length idxs = min (nat 5) (length [[1, 0], [0, 1 :: int]]) \<and>
     distinct idxs \<and> set idxs \<subseteq> {0..<length [[1, 0], [0, 1 :: int]]} \<and>
     sorted_wrt (\<lambda>i j. [2, 1 :: int] ! j \<le> [2, 1] ! i) idxs \<and>
     (\<forall>j<length [[1, 0], [0, 1 :: int]].
         j \<notin> set idxs \<longrightarrow> (\<forall>i\<in>set idxs. [2, 1 :: int] ! j \<le> [2, 1] ! i)) \<and>
     (int (length [[1, 0], [0, 1 :: int]]) \<le> 5 \<longrightarrow>
        set idxs = {0..<length [[1, 0], [0, 1 :: int]]})"
    by (rule get_context_top_k [OF h1 h2 h3]) simp_all
  then obtain idxs where
    a: "get_context stub_services ''hi'' [[1, 0], [0, 1]] [''The sky is blue'', '' Grass is green ''] 5 0
       = (Inr (map (\<lambda>i. strip ([''The sky is blue'', '' Grass is green ''] ! i)) idxs), 1)"
    and b: "length idxs = min (nat 5) (length [[1, 0], [0, 1 :: int]])"
    and c: "int (length [[1, 0], [0, 1 :: int]]) \<le> 5 \<longrightarrow>
              set idxs = {0..<length [[1, 0], [0, 1 :: int]]}"
    by (elim exE conjE)
  have b': "length idxs = 2"
    using b by simp
  have len2: "length [[1, 0], [0, 1 :: int]] = 2"
    by simp
  have "int (length [[1, 0], [0, 1 :: int]]) \<le> 5"
    by simp
  with c have "set idxs = {0..<length [[1, 0], [0, 1 :: int]]}"
    by (rule mp)
  then have c': "set idxs = {0..<2}"
    unfolding len2 .
  show ?thesis
    by (intro conjI exI [of _ idxs] h1 h2 h3 a b' c')
qed

subsection \<open>A chat turn, step by step\<close>

text \<open>
  The lemmas of this part follow a call of \<^verbatim>\<open>chat\<close> through its steps, for any globals
  and any services. Their hypotheses are the outcomes of the steps passed so far: the query
  to retrieve with has been chosen (the rewrite, if there was one, succeeded), the two vault
  names are bound, and retrieval has returned.
\<close>

lemma set_last_content_snoc:
  "set_last_content c (h @ [m]) = Inr (h @ [m\<lparr>content := c\<rparr>])"
  by (simp add: set_last_content_def)

lemma chat_after_retrieval:
  assumes "chat_rewritten_query g sv user_input
             (conversation_history @ [\<lparr>role = ''user'', content = user_input\<rparr>]) w
             = (Inr rewritten_query, w1)"
    and "vault_embeddings g = Some v_embeddings"
    and "vault_content g = Some v_content"
    and "get_context sv rewritten_query v_embeddings v_content 3 w1 = (Inr relevant_context, w2)"
  shows "chat g sv user_input model top_k conversation_history w =
     (let h2 = conversation_history
                 @ [\<lparr>role = ''user'',
                     content = user_input_with_context user_input relevant_context\<rparr>]
      in case ollama_model g of
           None \<Rightarrow> (Inl (NameError ''ollama_model''), h2, w2)
         | Some m \<Rightarrow>
             (case chat_completions_create sv
                     \<lparr>req_model = m,
                      req_messages = \<lparr>role = ''system'', content = system_message\<rparr> # h2,
                      req_max_tokens = 2000, req_n = None, req_temperature = None\<rparr> w2 of
                (Inl e, w3) \<Rightarrow> (Inl e, h2, w3)
              | (Inr reply, w3) \<Rightarrow>
                  (Inr reply, h2 @ [\<lparr>role = ''assistant'', content = reply\<rparr>], w3)))"
  using assms by (simp add: chat_def set_last_content_snoc Let_def)


text \<open>The two-chunk vault under the stub services: both chunks, the second one stripped.\<close>

lemma stub_context:
  "get_context stub_services ''hi'' [[1, 0], [0, 1]]
     [''The sky is blue'', '' Grass is green ''] 3 w
     = (Inr [''The sky is blue'', ''Grass is green''], Suc w)"
  by (simp add: get_context_def stub_services_def nelement_def torch_topk_def ranked_def
      strip_def isspace_def upt_rec)

text \<open>
  Claim C9. When retrieval returns a list of chunks, the content of the user's message that
  \<^verbatim>\<open>chat\<close> has just appended becomes the raw input, followed, if the list is not empty,
  by two newlines, \<^verbatim>\<open>Relevant Context:\<close>, a newline and the chunks joined by newlines;
  with an empty list it stays the raw input. The completion service is then called with
  exactly the system message followed by the whole history so changed (unless
  \<^verbatim>\<open>ollama_model\<close> is unbound, when nothing is sent), and its reply is appended as the
  assistant's message.
\<close>

theorem chat_augments_user_turn:
  assumes "chat_rewritten_query g sv user_input
             (conversation_history @ [\<lparr>role = ''user'', content = user_input\<rparr>]) w
             = (Inr rewritten_query, w1)"
    and "vault_embeddings g = Some v_embeddings"
    and "vault_content g = Some v_content"
    and "get_context sv rewritten_query v_embeddings v_content 3 w1 = (Inr relevant_context, w2)"
  shows "chat g sv user_input model top_k conversation_history w =
     (let h2 = conversation_history
                 @ [\<lparr>role = ''user'',
                     content =
                       (if relevant_context = [] then user_input
                        else user_input @ newline @ newline @ ''Relevant Context:'' @ newline
                               @ join newline relevant_context)\<rparr>]
      in case ollama_model g of
           None \<Rightarrow> (Inl (NameError ''ollama_model''), h2, w2)
         | Some m \<Rightarrow>
             (case chat_completions_create sv
                     \<lparr>req_model = m,
                      req_messages = \<lparr>role = ''system'', content = system_message\<rparr> # h2,
                      req_max_tokens = 2000, req_n = None, req_temperature = None\<rparr> w2 of
                (Inl e, w3) \<Rightarrow> (Inl e, h2, w3)
              | (Inr reply, w3) \<Rightarrow>
                  (Inr reply, h2 @ [\<lparr>role = ''assistant'', content = reply\<rparr>], w3)))"
  unfolding chat_after_retrieval [OF assms, of model top_k]
  by (simp add: user_input_with_context_def)

theorem chat_augments_user_turn_witness:
  "chat_rewritten_query vault_globals stub_services ''hi''
      ([] @ [\<lparr>role = ''user'', content = ''hi''\<rparr>]) 0 = (Inr ''hi'', 0) \<and>
   get_context stub_services ''hi'' [[1, 0], [0, 1]] [''The sky is blue'', '' Grass is green ''] 3 0
     = (Inr [''The sky is blue'', ''Grass is green''], Suc 0) \<and>
   chat vault_globals stub_services ''hi'' ''gemma2:2b'' 3 [] 0 =
     (Inr ''ok'',
      [\<lparr>role = ''user'', content = ''hi'' @ newline @ newline @ ''Relevant Context:'' @ newline
           @ ''The sky is blue'' @ newline @ ''Grass is green''\<rparr>,
       \<lparr>role = ''assistant'', content = ''ok''\<rparr>], 2)"
proof -
  have h1: "chat_rewritten_query vault_globals stub_services ''hi''
              ([] @ [\<lparr>role = ''user'', content = ''hi''\<rparr>]) 0 = (Inr ''hi'', 0)"
    by (simp add: chat_rewritten_query_def)
  have h2: "vault_embeddings vault_globals = Some [[1, 0], [0, 1]]"
    by (simp add: vault_globals_def)
  have h3: "vault_content vault_globals = Some [''The sky is blue'', '' Grass is green '']"
    by (simp add: vault_globals_def)
  have h4: "get_context stub_services ''hi'' [[1, 0], [0, 1]]
              [''The sky is blue'', '' Grass is green ''] 3 0
              = (Inr [''The sky is blue'', ''Grass is green''], Suc 0)"
    by (rule stub_context)
  have r: "chat vault_globals stub_services ''hi'' ''gemma2:2b'' 3 [] 0 =
     (Inr ''ok'',
      [\<lparr>role = ''user'', content = ''hi'' @ newline @ newline @ ''Relevant Context:'' @ newline
           @ ''The sky is blue'' @ newline @ ''Grass is green''\<rparr>,
       \<lparr>role = ''assistant'', content = ''ok''\<rparr>], 2)"
    unfolding chat_augments_user_turn [OF h1 h2 h3 h4, of "''gemma2:2b''" 3]
    by (simp add: vault_globals_def stub_services_def Let_def)
  show ?thesis
    by (intro conjI h1 h4 r)
qed

subsection \<open>Failures during a chat turn\<close>





text \<open>
  Claim C6, as stated, says that a failing retrieval gives an empty context and the reply
  is still produced. With the two-chunk vault and an embedding service that is down,
  \<^verbatim>\<open>chat\<close> raises the service's error: there is no reply, and the only service call
  made is the embedding call (the counter of calls stands at one).
\<close>

theorem chat_retrieval_failure_no_reply:
  "chat vault_globals embeddings_down ''hi'' ''gemma2:2b'' 3 [] 0 =
     (Inl (LibraryError ''ResponseError''), [\<lparr>role = ''user'', content = ''hi''\<rparr>], 1)"
  by (simp add: chat_def chat_rewritten_query_def vault_globals_def embeddings_down_def
      get_context_def stub_services_def nelement_def Let_def)

text \<open>
  Claim C6, amended. When \<^verbatim>\<open>get_context\<close> raises, \<^verbatim>\<open>chat\<close> raises the same error
  at once and the turn ends there: no reply is produced, no call is made after the failed
  retrieval (the outside is returned as retrieval left it, so the completion service is not
  asked for the reply), and the history is left as it was given, followed by the user's
  message with the raw input.
\<close>

theorem chat_retrieval_failure_aborts:
  assumes "chat_rewritten_query g sv user_input
             (conversation_history @ [\<lparr>role = ''user'', content = user_input\<rparr>]) w
             = (Inr rewritten_query, w1)"
    and "vault_embeddings g = Some v_embeddings"
    and "vault_content g = Some v_content"
    and "get_context sv rewritten_query v_embeddings v_content 3 w1 = (Inl e, w2)"
  shows "chat g sv user_input model top_k conversation_history w =
     (Inl e, conversation_history @ [\<lparr>role = ''user'', content = user_input\<rparr>], w2)"
  using assms by (simp add: chat_def Let_def)

theorem chat_retrieval_failure_aborts_witness:
  "get_context embeddings_down ''hi'' [[1, 0], [0, 1]] [''The sky is blue'', '' Grass is green ''] 3 0
     = (Inl (LibraryError ''ResponseError''), 1) \<and>
   chat vault_globals embeddings_down ''hi'' ''gemma2:2b'' 3 [] 0 =
     (Inl (LibraryError ''ResponseError''), [] @ [\<lparr>role = ''user'', content = ''hi''\<rparr>], 1)"
proof -
  have h1: "chat_rewritten_query vault_globals embeddings_down ''hi''
              ([] @ [\<lparr>role = ''user'', content = ''hi''\<rparr>]) 0 = (Inr ''hi'', 0)"
    by (simp add: chat_rewritten_query_def)
  have h2: "vault_embeddings vault_globals = Some [[1, 0], [0, 1]]"
    by (simp add: vault_globals_def)
  have h3: "vault_content vault_globals = Some [''The sky is blue'', '' Grass is green '']"
    by (simp add: vault_globals_def)
  have h4: "get_context embeddings_down ''hi'' [[1, 0], [0, 1]]
              [''The sky is blue'', '' Grass is green ''] 3 0
              = (Inl (LibraryError ''ResponseError''), 1)"
    by (simp add: get_context_def embeddings_down_def stub_services_def nelement_def)
  show ?thesis
    by (intro conjI h4 chat_retrieval_failure_aborts [OF h1 h2 h3 h4])
qed

subsection \<open>The requested top-K\<close>

text \<open>The parameter \<open>top_k\<close> of \<^verbatim>\<open>chat\<close>, like \<open>model\<close>, is never read.\<close>

lemma chat_top_k_irrelevant:
  "chat g sv user_input model top_k conversation_history w
     = chat g sv user_input model top_k' conversation_history w"
  by (simp add: chat_def)

text \<open>
  Claim C2 asks that the context of a turn is what the vault returns for the \<open>top_k\<close>
  passed to \<^verbatim>\<open>chat\<close>. On the two-chunk vault a query with \<open>top_k = 1\<close> returns one
  chunk, but \<^verbatim>\<open>chat\<close> called with \<open>top_k = 1\<close> puts both chunks into the turn: it
  calls \<^verbatim>\<open>get_context\<close> without the argument, so with the default 3.
\<close>

theorem chat_ignores_top_k:
  "fst (get_context stub_services ''hi'' [[1, 0], [0, 1]]
          [''The sky is blue'', '' Grass is green ''] 1 0) = Inr [''The sky is blue''] \<and>
   chat vault_globals stub_services ''hi'' ''gemma2:2b'' 1 [] 0 =
     (Inr ''ok'',
      [\<lparr>role = ''user'', content = ''hi'' @ newline @ newline @ ''Relevant Context:'' @ newline
           @ ''The sky is blue'' @ newline @ ''Grass is green''\<rparr>,
       \<lparr>role = ''assistant'', content = ''ok''\<rparr>], 2)"
proof (intro conjI)
  show "fst (get_context stub_services ''hi'' [[1, 0], [0, 1]]
          [''The sky is blue'', '' Grass is green ''] 1 0) = Inr [''The sky is blue'']"
    by (simp add: get_context_def stub_services_def nelement_def torch_topk_def ranked_def
        strip_def isspace_def upt_rec)
  show "chat vault_globals stub_services ''hi'' ''gemma2:2b'' 1 [] 0 =
     (Inr ''ok'',
      [\<lparr>role = ''user'', content = ''hi'' @ newline @ newline @ ''Relevant Context:'' @ newline
           @ ''The sky is blue'' @ newline @ ''Grass is green''\<rparr>,
       \<lparr>role = ''assistant'', content = ''ok''\<rparr>], 2)"
    by (simp add: chat_def chat_rewritten_query_def vault_globals_def stub_context
        set_last_content_def user_input_with_context_def Let_def)
       (simp add: stub_services_def)
qed

subsection \<open>The history after a completed turn\<close>

text \<open>
  A turn that completes leaves four new messages in the session's history: the two that
  \<^verbatim>\<open>chat\<close> appended to the list it was given, and the two the script appends to the
  same list after the call.
\<close>

lemma on_user_input_completed:
  assumes "on_user_input g sv user_input model top_k messages w = (Inr (Some response), messages', w')"
  shows "\<exists>c. messages' = messages @
     [\<lparr>role = ''user'', content = c\<rparr>, \<lparr>role = ''assistant'', content = response\<rparr>,
      \<lparr>role = ''user'', content = user_input\<rparr>, \<lparr>role = ''assistant'', content = response\<rparr>]"
  using assms
  by (auto simp: on_user_input_def chat_def Let_def set_last_content_snoc
      split: if_splits prod.splits sum.splits option.splits)

text \<open>
  Claim C3 asks that a completed turn adds exactly two messages and that no turn is
  recorded twice. One turn on an empty history, with every service answering, leaves four
  messages: the user's and the assistant's, and then both again.
\<close>

theorem on_user_input_records_turn_twice:
  "on_user_input empty_vault_globals stub_services ''hi'' ''gemma2:2b'' 3 [] 0 =
   (Inr (Some ''ok''),
    [\<lparr>role = ''user'', content = ''hi''\<rparr>, \<lparr>role = ''assistant'', content = ''ok''\<rparr>,
     \<lparr>role = ''user'', content = ''hi''\<rparr>, \<lparr>role = ''assistant'', content = ''ok''\<rparr>], 1)"
  by (simp add: on_user_input_def chat_def chat_rewritten_query_def empty_vault_globals_def
      get_context_def nelement_def set_last_content_def user_input_with_context_def Let_def
      stub_services_def)

subsection \<open>The temporary file of an ingestion\<close>

text \<open>
  When the function returns normally the temporary file is gone; when the loader raises,
  the function is left before \<^verbatim>\<open>os.unlink\<close> and the file stays, with the uploaded bytes.
\<close>

lemma add_to_vector_store_success:
  assumes "named_temporary_file lib disk w = (Inr tmp_file_path, w1)"
    and "add_to_vector_store lib (Some f) chunk_size chunk_overlap disk w = (Inr (), disk', w')"
  shows "disk' = disk(tmp_file_path := None)"
  using assms
  by (auto simp: add_to_vector_store_def os_unlink_def Let_def
      split: prod.splits sum.splits if_splits)

lemma add_to_vector_store_loader_raises:
  assumes "named_temporary_file lib disk w = (Inr tmp_file_path, w1)"
    and "loader_load lib (loader_for (file_type f) tmp_file_path)
           (disk(tmp_file_path \<mapsto> file_value f)) w1 = (Inl e, w2)"
  shows "add_to_vector_store lib (Some f) chunk_size chunk_overlap disk w
           = (Inl e, disk(tmp_file_path \<mapsto> file_value f), w2)"
  using assms by (simp add: add_to_vector_store_def Let_def)

text \<open>
  Claim C5 asks that the temporary copy is removed on the success path and on the failure
  path. With a loader that cannot parse the upload, \<^verbatim>\<open>add_to_vector_store\<close> raises the
  loader's error and the temporary file is still on disk; with a loader that can, the call
  succeeds and the file is gone.
\<close>

theorem add_to_vector_store_leaves_temp_file:
  "fst (add_to_vector_store loader_down (Some broken_pdf) 256 100 Map.empty 0)
     = Inl (LibraryError ''PdfReadError'') \<and>
   fst (snd (add_to_vector_store loader_down (Some broken_pdf) 256 100 Map.empty 0)) ''/tmp/tmpk3v9''
     = Some ''not a pdf'' \<and>
   fst (add_to_vector_store stub_ingestion (Some broken_pdf) 256 100 Map.empty 0) = Inr () \<and>
   fst (snd (add_to_vector_store stub_ingestion (Some broken_pdf) 256 100 Map.empty 0)) ''/tmp/tmpk3v9''
     = None"
  by (simp add: add_to_vector_store_def loader_down_def stub_ingestion_def broken_pdf_def
      loader_for_def os_unlink_def Let_def)

end
